theory Spec2Isabelle
  imports Main "HOL-Library.AList"
begin

section \<open>The device registry manager \<open>krbn::hid_manager\<close>\<close>

text \<open>
  A shallow embedding of \<open>src/share/hid_manager.hpp\<close>. The class is modelled by a record
  of its data members, each member function by a function from the object before the call
  to the object after it. Everything the code does to the outside (signals raised, log
  lines, calls of the IOKit session API) is appended to a chronological list of effects,
  and everything the outside answers (the IOKit queries, the slots of the pre-filter
  signal, the liveness check of a device) is read from an environment record.
  All member functions run on the main queue, one at a time; \<open>dispatch_sync_in_main_queue\<close>
  in \<open>stop\<close> runs its block to completion before returning, so the block is modelled inline.
\<close>

subsection \<open>Data model\<close>

text \<open>Raw pointers of the C API are addresses; the null pointer is address 0.\<close>

type_synonym IOHIDDeviceRef = nat
type_synonym IOHIDManagerRef = nat
type_synonym CFArrayRef = nat
type_synonym registry_entry_id = nat
type_synonym hid_usage_page = nat
type_synonym hid_usage = nat

definition nullptr :: nat where
  "nullptr = 0"

definition kIOReturnSuccess :: int where
  "kIOReturnSuccess = 0"

text \<open>
  Modelled from the spec: \<open>human_interface_device.hpp\<close> is not part of the sources. The
  logical device is constructed from (native handle, stable identity) and has a
  "mark removed" mutator; its liveness validation and its display name are answers of the
  environment (\<open>validate\<close>, \<open>get_name_for_log\<close> below).
\<close>

record human_interface_device =
  hid_device :: IOHIDDeviceRef
  hid_registry_entry_id :: registry_entry_id
  hid_removed :: bool

text \<open>
  \<open>std::shared_ptr<human_interface_device>\<close>: \<open>None\<close> is the empty pointer, \<open>Some a\<close> points
  to the object at address \<open>a\<close> of the object store. The store is a list, the address of
  an object is its index, and \<open>std::make_shared\<close> allocates at the end.
\<close>

type_synonym hid_ptr = "nat option"
type_synonym object_store = "human_interface_device list"

text \<open>\<open>gcd_utility::main_queue_timer\<close>, by its constructor arguments (nanoseconds).\<close>

record main_queue_timer =
  timer_start :: nat
  timer_interval :: nat
  timer_leeway :: nat

datatype effect =
    Log_error string
  | Log_warn string
  | Signal_device_detected hid_ptr
  | Signal_device_removed hid_ptr
  | Call_IOHIDManagerSetDeviceMatchingMultiple IOHIDManagerRef CFArrayRef
  | Call_IOHIDManagerRegisterDeviceMatchingCallback IOHIDManagerRef
  | Call_IOHIDManagerRegisterDeviceRemovalCallback IOHIDManagerRef
  | Call_IOHIDManagerScheduleWithRunLoop IOHIDManagerRef
  | Call_IOHIDManagerUnscheduleFromRunLoop IOHIDManagerRef
  | Call_CFRelease nat

text \<open>
  The data members of \<open>hid_manager\<close>, in the order of their declaration (the source
  writes each with a trailing underscore, which a name cannot end with here), followed by
  the two parts of the world the member functions act on. A \<open>std::unordered_map\<close> is an
  association list; the order of the list stands for the iteration order of the container.
\<close>

record hid_manager =
  usage_pairs :: "(hid_usage_page \<times> hid_usage) list"
  manager :: IOHIDManagerRef
  registry_entry_ids :: "(IOHIDDeviceRef \<times> registry_entry_id) list"
  hids :: "(registry_entry_id \<times> hid_ptr) list"
  refresh_timer :: "main_queue_timer option"
  heap :: object_store
  effects :: "effect list"

text \<open>
  What the outside answers during one call of a member function:
  the result of \<open>IOHIDManagerCreate\<close> (null on failure), of
  \<open>iokit_utility::create_device_matching_dictionaries\<close> (null on failure), the combined
  result of the slots of the \<open>device_detecting\<close> signal (false as soon as one slot
  returns false), the registry entry id IOKit reports for a device (\<open>boost::none\<close> when it
  cannot), and the liveness and display name of the logical device at an address.
\<close>

record os_env =
  IOHIDManagerCreate :: IOHIDManagerRef
  create_device_matching_dictionaries :: "(hid_usage_page \<times> hid_usage) list \<Rightarrow> CFArrayRef"
  device_detecting :: "IOHIDDeviceRef \<Rightarrow> bool"
  iokit_find_registry_entry_id :: "IOHIDDeviceRef \<Rightarrow> registry_entry_id option"
  validate :: "nat \<Rightarrow> bool"
  get_name_for_log :: "nat \<Rightarrow> string"

subsection \<open>Helpers of the embedding\<close>

definition emit :: "effect list \<Rightarrow> hid_manager \<Rightarrow> hid_manager" where
  "emit es s = s\<lparr>effects := effects s @ es\<rparr>"

definition make_shared :: "IOHIDDeviceRef \<Rightarrow> registry_entry_id \<Rightarrow> object_store \<Rightarrow> hid_ptr \<times> object_store" where
  "make_shared device rid h =
     (Some (length h), h @ [\<lparr>hid_device = device, hid_registry_entry_id = rid, hid_removed = False\<rparr>])"

text \<open>
  \<open>hid->set_removed()\<close>. A shared pointer keeps its object alive, so the address is always
  in range; outside the range the update leaves the store as it is.
\<close>

definition set_removed :: "nat \<Rightarrow> object_store \<Rightarrow> object_store" where
  "set_removed a h = h[a := (h ! a)\<lparr>hid_removed := True\<rparr>]"

text \<open>The value of \<open>__PRETTY_FUNCTION__\<close> inside \<open>start\<close>, as clang prints it.\<close>

definition pretty_function_start :: string where
  "pretty_function_start = ''void krbn::hid_manager::start()''"

definition dangling_message :: "string \<Rightarrow> string" where
  "dangling_message name =
     ''Refreshing hid_manager since a dangling human_interface_device is found. ('' @ name @ '')''"

subsection \<open>Member functions\<close>

definition hid_manager_ctor :: "(hid_usage_page \<times> hid_usage) list \<Rightarrow> object_store \<Rightarrow> effect list \<Rightarrow> hid_manager" where
  "hid_manager_ctor pairs h es =
     \<lparr>usage_pairs = pairs, manager = nullptr, registry_entry_ids = [], hids = [],
      refresh_timer = None, heap = h, effects = es\<rparr>"

definition get_hids :: "hid_manager \<Rightarrow> (registry_entry_id \<times> hid_ptr) list" where
  "get_hids s = hids s"

definition stop :: "hid_manager \<Rightarrow> hid_manager" where
  "stop s =
     (let s1 = s\<lparr>refresh_timer := None\<rparr>;
          s2 = (if manager s1 \<noteq> nullptr
                then (emit [Call_IOHIDManagerUnscheduleFromRunLoop (manager s1),
                            Call_CFRelease (manager s1)] s1)\<lparr>manager := nullptr\<rparr>
                else s1);
          s3 = s2\<lparr>registry_entry_ids := []\<rparr>
      in s3\<lparr>hids := []\<rparr>)"

definition hid_manager_dtor :: "hid_manager \<Rightarrow> hid_manager" where
  "hid_manager_dtor s = stop s"

definition start :: "os_env \<Rightarrow> hid_manager \<Rightarrow> hid_manager" where
  "start env s =
     (let s1 = (if manager s \<noteq> nullptr then stop s else s);
          s2 = s1\<lparr>manager := IOHIDManagerCreate env\<rparr>
      in if manager s2 = nullptr
         then emit [Log_error (pretty_function_start @ '': failed to IOHIDManagerCreate'')] s2
         else
           let device_matching_dictionaries =
                 create_device_matching_dictionaries env (usage_pairs s2);
               s3 = (if device_matching_dictionaries \<noteq> nullptr
                     then emit [Call_IOHIDManagerSetDeviceMatchingMultiple (manager s2)
                                  device_matching_dictionaries,
                                Call_CFRelease device_matching_dictionaries] s2
                     else s2);
               s4 = emit [Call_IOHIDManagerRegisterDeviceMatchingCallback (manager s3),
                          Call_IOHIDManagerRegisterDeviceRemovalCallback (manager s3),
                          Call_IOHIDManagerScheduleWithRunLoop (manager s3)] s3
           in s4\<lparr>refresh_timer :=
                  Some \<lparr>timer_start = 0, timer_interval = 5000000000, timer_leeway = 0\<rparr>\<rparr>)"

definition device_matching_callback :: "os_env \<Rightarrow> IOHIDDeviceRef \<Rightarrow> hid_manager \<Rightarrow> hid_manager" where
  "device_matching_callback env device s =
     (if device = nullptr then s
      else if \<not> device_detecting env device then s
      else case iokit_find_registry_entry_id env device of
             None \<Rightarrow> s
           | Some registry_entry_id \<Rightarrow>
               let s1 = s\<lparr>registry_entry_ids :=
                          AList.update device registry_entry_id (registry_entry_ids s)\<rparr>
               in (case map_of (hids s1) registry_entry_id of
                     Some _ \<Rightarrow> s1
                   | None \<Rightarrow>
                       (let (hid, h) = make_shared device registry_entry_id (heap s1);
                            s2 = s1\<lparr>heap := h\<rparr>;
                            s3 = s2\<lparr>hids := AList.update registry_entry_id hid (hids s2)\<rparr>
                        in emit [Signal_device_detected hid] s3)))"

definition static_device_matching_callback ::
  "os_env \<Rightarrow> hid_manager option \<Rightarrow> int \<Rightarrow> nat \<Rightarrow> IOHIDDeviceRef \<Rightarrow> hid_manager option" where
  "static_device_matching_callback env context result sender device =
     (if result \<noteq> kIOReturnSuccess then context
      else case context of
             None \<Rightarrow> None
           | Some self \<Rightarrow> Some (device_matching_callback env device self))"

definition find_registry_entry_id :: "hid_manager \<Rightarrow> IOHIDDeviceRef \<Rightarrow> registry_entry_id option" where
  "find_registry_entry_id s device = map_of (registry_entry_ids s) device"

text \<open>The loop at the end of \<open>device_removal_callback\<close>, over the entries in iteration order.\<close>

fun erase_registry_entry_id ::
  "registry_entry_id \<Rightarrow> (IOHIDDeviceRef \<times> registry_entry_id) list \<Rightarrow> (IOHIDDeviceRef \<times> registry_entry_id) list" where
  "erase_registry_entry_id rid [] = []"
| "erase_registry_entry_id rid (it # rest) =
     (if snd it = rid then erase_registry_entry_id rid rest
      else it # erase_registry_entry_id rid rest)"

definition device_removal_callback :: "IOHIDDeviceRef \<Rightarrow> hid_manager \<Rightarrow> hid_manager" where
  "device_removal_callback device s =
     (if device = nullptr then s
      else case find_registry_entry_id s device of
             None \<Rightarrow> s
           | Some registry_entry_id \<Rightarrow>
               let s1 = (case map_of (hids s) registry_entry_id of
                           None \<Rightarrow> s
                         | Some hid \<Rightarrow>
                             (case hid of
                                None \<Rightarrow> s
                              | Some a \<Rightarrow>
                                  (let s' = s\<lparr>hids := AList.delete_aux registry_entry_id (hids s)\<rparr>;
                                       s'' = s'\<lparr>heap := set_removed a (heap s')\<rparr>
                                   in emit [Signal_device_removed hid] s'')))
               in s1\<lparr>registry_entry_ids :=
                       erase_registry_entry_id registry_entry_id (registry_entry_ids s1)\<rparr>)"

definition static_device_removal_callback ::
  "hid_manager option \<Rightarrow> int \<Rightarrow> nat \<Rightarrow> IOHIDDeviceRef \<Rightarrow> hid_manager option" where
  "static_device_removal_callback context result sender device =
     (if result \<noteq> kIOReturnSuccess then context
      else case context of
             None \<Rightarrow> None
           | Some self \<Rightarrow> Some (device_removal_callback device self))"

text \<open>
  The loop of \<open>refresh_if_needed\<close> over the entries of \<open>hids\<close> as they were when the loop
  began. Calling \<open>validate\<close> through an empty shared pointer is undefined behaviour: the
  result is \<open>None\<close>. After \<open>start()\<close> the loop is left by \<open>break\<close>.
\<close>

fun refresh_loop :: "os_env \<Rightarrow> (registry_entry_id \<times> hid_ptr) list \<Rightarrow> hid_manager \<Rightarrow> hid_manager option" where
  "refresh_loop env [] s = Some s"
| "refresh_loop env (hid # rest) s =
     (case snd hid of
        None \<Rightarrow> None
      | Some a \<Rightarrow>
          if \<not> validate env a
          then Some (start env (emit [Log_warn (dangling_message (get_name_for_log env a))] s))
          else refresh_loop env rest s)"

definition refresh_if_needed :: "os_env \<Rightarrow> hid_manager \<Rightarrow> hid_manager option" where
  "refresh_if_needed env s = refresh_loop env (hids s) s"

subsection \<open>The run loop\<close>

text \<open>
  What the main queue can deliver to the manager: a call of \<open>start\<close> or \<open>stop\<close> by the owner,
  a device matching or removal callback of IOKit with its result code, or a tick of the
  refresh timer. The callbacks are registered with the manager itself as context. The
  result is \<open>None\<close> when the call has undefined behaviour.
\<close>

datatype event =
    Ev_start
  | Ev_stop
  | Ev_device_matching int IOHIDDeviceRef
  | Ev_device_removal int IOHIDDeviceRef
  | Ev_timer

fun deliver :: "os_env \<Rightarrow> event \<Rightarrow> hid_manager \<Rightarrow> hid_manager option" where
  "deliver env Ev_start s = Some (start env s)"
| "deliver env Ev_stop s = Some (stop s)"
| "deliver env (Ev_device_matching result device) s =
     static_device_matching_callback env (Some s) result nullptr device"
| "deliver env (Ev_device_removal result device) s =
     static_device_removal_callback (Some s) result nullptr device"
| "deliver env Ev_timer s = refresh_if_needed env s"

fun run :: "(os_env \<times> event) list \<Rightarrow> hid_manager \<Rightarrow> hid_manager option" where
  "run [] s = Some s"
| "run (e # es) s =
     (case deliver (fst e) (snd e) s of
        None \<Rightarrow> None
      | Some s' \<Rightarrow> run es s')"

text \<open>A sequence of arrival callbacks, each with the answers of the outside at its time.\<close>

fun arrivals :: "(os_env \<times> IOHIDDeviceRef) list \<Rightarrow> hid_manager \<Rightarrow> hid_manager" where
  "arrivals [] s = s"
| "arrivals (c # cs) s = arrivals cs (device_matching_callback (fst c) (snd c) s)"

subsection \<open>Vocabulary of the properties\<close>

text \<open>
  An arrival callback is accepted as identity \<open>r\<close> when its handle is not null, the
  pre-filter does not veto it and IOKit resolves it to \<open>r\<close>.
\<close>

definition accepted_as :: "registry_entry_id \<Rightarrow> os_env \<times> IOHIDDeviceRef \<Rightarrow> bool" where
  "accepted_as r c =
     (snd c \<noteq> nullptr \<and> device_detecting (fst c) (snd c) \<and>
      iokit_find_registry_entry_id (fst c) (snd c) = Some r)"

definition entries_for :: "'k \<Rightarrow> ('k \<times> 'v) list \<Rightarrow> ('k \<times> 'v) list" where
  "entries_for k xs = filter (\<lambda>e. fst e = k) xs"

text \<open>The effects a call added: those of the state after it beyond those of the state before.\<close>

definition raised_since :: "hid_manager \<Rightarrow> hid_manager \<Rightarrow> effect list" where
  "raised_since s s' = drop (length (effects s)) (effects s')"

fun is_device_removed :: "effect \<Rightarrow> bool" where
  "is_device_removed (Signal_device_removed hid) = True"
| "is_device_removed e = False"


fun is_registration :: "effect \<Rightarrow> bool" where
  "is_registration (Call_IOHIDManagerRegisterDeviceMatchingCallback m) = True"
| "is_registration (Call_IOHIDManagerRegisterDeviceRemovalCallback m) = True"
| "is_registration (Call_IOHIDManagerScheduleWithRunLoop m) = True"
| "is_registration e = False"

text \<open>The entry of \<open>hids\<close> passes the liveness check of \<open>refresh_if_needed\<close>.\<close>

definition alive :: "os_env \<Rightarrow> registry_entry_id \<times> hid_ptr \<Rightarrow> bool" where
  "alive env hid = (case snd hid of None \<Rightarrow> False | Some a \<Rightarrow> validate env a)"

text \<open>The words of the specification for a restart: \<open>stop()\<close> followed by \<open>start()\<close>.\<close>

definition stop_then_start :: "os_env \<Rightarrow> hid_manager \<Rightarrow> hid_manager" where
  "stop_then_start env s = start env (stop s)"

subsection \<open>Invariants of the object\<close>

text \<open>A refresh timer exists only while a session is open.\<close>

definition timer_inv :: "hid_manager \<Rightarrow> bool" where
  "timer_inv s = (refresh_timer s \<noteq> None \<longrightarrow> manager s \<noteq> nullptr)"

text \<open>
  The keys of \<open>hids\<close> are unique, as in any \<open>std::unordered_map\<close>, and every value is a
  non-empty shared pointer to an object of the store.
\<close>

definition points_into :: "object_store \<Rightarrow> registry_entry_id \<times> hid_ptr \<Rightarrow> bool" where
  "points_into h hid = (case snd hid of None \<Rightarrow> False | Some a \<Rightarrow> a < length h)"

definition hids_inv :: "hid_manager \<Rightarrow> bool" where
  "hids_inv s = (distinct (map fst (hids s)) \<and> list_all (points_into (heap s)) (hids s))"

definition hid_manager_inv :: "hid_manager \<Rightarrow> bool" where
  "hid_manager_inv s =
     (timer_inv s \<and> hids_inv s \<and> distinct (map fst (registry_entry_ids s)))"

subsection \<open>A concrete scenario\<close>

text \<open>
  Two handles \<open>A\<close> and \<open>B\<close> of one physical device with registry entry id 100, observed by a
  manager for keyboards (usage page 1, usage 6).
\<close>

definition handle_A :: IOHIDDeviceRef where
  "handle_A = 1"

definition handle_B :: IOHIDDeviceRef where
  "handle_B = 2"

definition scenario_env :: os_env where
  "scenario_env =
     \<lparr>IOHIDManagerCreate = 7,
      create_device_matching_dictionaries = (\<lambda>pairs. 8),
      device_detecting = (\<lambda>device. True),
      iokit_find_registry_entry_id = (\<lambda>device. if device = 1 \<or> device = 2 then Some 100 else None),
      validate = (\<lambda>a. False),
      get_name_for_log = (\<lambda>a. ''keyboard'')\<rparr>"

definition scenario_stopped :: hid_manager where
  "scenario_stopped = hid_manager_ctor [(1, 6)] [] []"

definition scenario_running :: hid_manager where
  "scenario_running = start scenario_env scenario_stopped"

definition scenario_two_handles :: hid_manager where
  "scenario_two_handles =
     arrivals [(scenario_env, handle_A), (scenario_env, handle_B)] scenario_running"



section \<open>Properties\<close>

subsection \<open>Field-wise descriptions and invariants\<close>

lemma stop_fields:
  "manager (stop s) = nullptr" "refresh_timer (stop s) = None"
  "registry_entry_ids (stop s) = []" "hids (stop s) = []" "heap (stop s) = heap s"
  "usage_pairs (stop s) = usage_pairs s"
  "effects (stop s) = effects s @ (if manager s \<noteq> nullptr
       then [Call_IOHIDManagerUnscheduleFromRunLoop (manager s), Call_CFRelease (manager s)] else [])"
  by (simp_all add: stop_def emit_def Let_def)

lemma emit_fields:
  "manager (emit es s) = manager s" "refresh_timer (emit es s) = refresh_timer s"
  "registry_entry_ids (emit es s) = registry_entry_ids s" "hids (emit es s) = hids s"
  "heap (emit es s) = heap s" "usage_pairs (emit es s) = usage_pairs s"
  "effects (emit es s) = effects s @ es"
  by (simp_all add: emit_def)

lemma start_failed:
  assumes "IOHIDManagerCreate env = nullptr"
  shows "start env s =
           emit [Log_error (pretty_function_start @ '': failed to IOHIDManagerCreate'')]
             ((if manager s \<noteq> nullptr then stop s else s)\<lparr>manager := nullptr\<rparr>)"
  using assms by (simp add: start_def Let_def)

lemma start_opened:
  assumes "IOHIDManagerCreate env \<noteq> nullptr"
  shows "manager (start env s) = IOHIDManagerCreate env"
    and "refresh_timer (start env s) =
           Some \<lparr>timer_start = 0, timer_interval = 5000000000, timer_leeway = 0\<rparr>"
    and "hids (start env s) = hids (if manager s \<noteq> nullptr then stop s else s)"
    and "registry_entry_ids (start env s) =
           registry_entry_ids (if manager s \<noteq> nullptr then stop s else s)"
    and "heap (start env s) = heap s"
    and "effects (start env s) =
           effects (if manager s \<noteq> nullptr then stop s else s) @
           (if create_device_matching_dictionaries env (usage_pairs s) \<noteq> nullptr
            then [Call_IOHIDManagerSetDeviceMatchingMultiple (IOHIDManagerCreate env)
                    (create_device_matching_dictionaries env (usage_pairs s)),
                  Call_CFRelease (create_device_matching_dictionaries env (usage_pairs s))]
            else []) @
           [Call_IOHIDManagerRegisterDeviceMatchingCallback (IOHIDManagerCreate env),
            Call_IOHIDManagerRegisterDeviceRemovalCallback (IOHIDManagerCreate env),
            Call_IOHIDManagerScheduleWithRunLoop (IOHIDManagerCreate env)]"
  using assms by (simp_all add: start_def Let_def emit_fields stop_fields)


lemma start_heap: "heap (start env s) = heap s"
  by (simp add: start_def Let_def emit_fields stop_fields)

lemma start_hids: "hids (start env s) = (if manager s \<noteq> nullptr then [] else hids s)"
  by (simp add: start_def Let_def emit_fields stop_fields)

lemma start_registry_entry_ids:
  "registry_entry_ids (start env s) = (if manager s \<noteq> nullptr then [] else registry_entry_ids s)"
  by (simp add: start_def Let_def emit_fields stop_fields)

lemma start_timer_inv:
  assumes "timer_inv s"
  shows "timer_inv (start env s)"
  using assms by (auto simp: start_def Let_def emit_fields stop_fields timer_inv_def)

lemma start_inv:
  assumes "hid_manager_inv s"
  shows "hid_manager_inv (start env s)"
  using assms
  by (simp add: hid_manager_inv_def hids_inv_def start_timer_inv start_hids start_heap
      start_registry_entry_ids)

lemma stop_inv: "hid_manager_inv (stop s)"
  by (simp add: hid_manager_inv_def hids_inv_def timer_inv_def stop_fields)

lemma ctor_inv: "hid_manager_inv (hid_manager_ctor pairs h es)"
  by (simp add: hid_manager_inv_def hids_inv_def timer_inv_def hid_manager_ctor_def)

lemma emit_inv: "hid_manager_inv (emit es s) = hid_manager_inv s"
  by (simp add: hid_manager_inv_def hids_inv_def timer_inv_def emit_fields)

lemma dmc_known:
  assumes "accepted_as r (env, d)" "map_of (hids s) r = Some p"
  shows "device_matching_callback env d s =
           s\<lparr>registry_entry_ids := AList.update d r (registry_entry_ids s)\<rparr>"
  using assms by (simp add: device_matching_callback_def accepted_as_def)

lemma dmc_fresh:
  assumes "accepted_as r (env, d)" "map_of (hids s) r = None"
  shows "device_matching_callback env d s =
           s\<lparr>registry_entry_ids := AList.update d r (registry_entry_ids s),
             heap := heap s @ [\<lparr>hid_device = d, hid_registry_entry_id = r, hid_removed = False\<rparr>],
             hids := AList.update r (Some (length (heap s))) (hids s),
             effects := effects s @ [Signal_device_detected (Some (length (heap s)))]\<rparr>"
  using assms by (simp add: device_matching_callback_def accepted_as_def make_shared_def emit_def)

lemma dmc_ignored:
  assumes "\<not> (\<exists>r. accepted_as r (env, d))"
  shows "device_matching_callback env d s = s"
  using assms by (auto simp: device_matching_callback_def accepted_as_def split: option.split)

lemma list_all_update:
  assumes "list_all P xs" "P (k, v)"
  shows "list_all P (AList.update k v xs)"
  using assms by (induction xs) auto

lemma points_into_mono:
  assumes "list_all (points_into h) xs"
  shows "list_all (points_into (h @ h')) xs"
  using assms by (induction xs) (auto simp: points_into_def split: option.splits)

lemma dmc_inv:
  assumes "hid_manager_inv s"
  shows "hid_manager_inv (device_matching_callback env d s)"
proof (cases "\<exists>r. accepted_as r (env, d)")
  case False
  with assms show ?thesis by (simp add: dmc_ignored)
next
  case True
  then obtain r where acc: "accepted_as r (env, d)" ..
  show ?thesis
  proof (cases "map_of (hids s) r")
    case (Some p)
    show ?thesis
      using assms
      by (simp add: dmc_known[OF acc Some] hid_manager_inv_def hids_inv_def timer_inv_def
          distinct_update)
  next
    case None
    have "points_into (heap s @ [x]) (r, Some (length (heap s)))" for x
      by (simp add: points_into_def)
    then show ?thesis
      using assms
      by (simp add: dmc_fresh[OF acc None] hid_manager_inv_def hids_inv_def timer_inv_def
          distinct_update list_all_update points_into_mono)
  qed
qed

lemma erase_registry_entry_id_filter:
  "erase_registry_entry_id rid xs = filter (\<lambda>it. snd it \<noteq> rid) xs"
  by (induction xs) auto

lemma list_all_delete_aux:
  assumes "list_all P xs"
  shows "list_all P (AList.delete_aux k xs)"
  using assms by (induction xs) auto

lemma points_into_set_removed:
  "points_into (set_removed a h) = points_into h"
  by (simp add: points_into_def set_removed_def fun_eq_iff split: option.split)

lemma hids_inv_nonnull:
  assumes "hids_inv s" "map_of (hids s) r = Some p"
  shows "\<exists>a. p = Some a \<and> a < length (heap s)"
proof -
  from assms(2) have "(r, p) \<in> set (hids s)" by (rule map_of_SomeD)
  with assms(1) have "points_into (heap s) (r, p)"
    by (auto simp: hids_inv_def list_all_iff)
  then show ?thesis by (cases p) (simp_all add: points_into_def)
qed

lemma drc_inv:
  assumes "hid_manager_inv s"
  shows "hid_manager_inv (device_removal_callback device s)"
  using assms
  by (auto simp: device_removal_callback_def hid_manager_inv_def hids_inv_def timer_inv_def
      emit_def erase_registry_entry_id_filter distinct_map_filter list_all_delete_aux
      points_into_set_removed Let_def
      split: option.split)


lemma refresh_loop_all_alive:
  assumes "list_all (alive env) xs"
  shows "refresh_loop env xs s = Some s"
  using assms by (induction xs) (auto simp: alive_def split: option.splits)

lemma refresh_loop_defined:
  assumes "list_all (points_into h) xs" "hid_manager_inv s"
  shows "\<exists>s'. refresh_loop env xs s = Some s' \<and> hid_manager_inv s'"
  using assms
proof (induction xs)
  case Nil
  then show ?case by simp
next
  case (Cons x xs)
  then show ?case
    by (cases "snd x") (auto simp: points_into_def start_inv emit_inv)
qed

lemma refresh_inv:
  assumes "hid_manager_inv s"
  shows "\<exists>s'. refresh_if_needed env s = Some s' \<and> hid_manager_inv s'"
proof -
  from assms have "list_all (points_into (heap s)) (hids s)"
    by (simp add: hid_manager_inv_def hids_inv_def)
  then show ?thesis unfolding refresh_if_needed_def using assms by (rule refresh_loop_defined)
qed

lemma deliver_inv:
  assumes "hid_manager_inv s"
  shows "\<exists>s'. deliver env ev s = Some s' \<and> hid_manager_inv s'"
proof (cases ev)
  case Ev_start
  with assms show ?thesis by (simp add: start_inv)
next
  case Ev_stop
  then show ?thesis by (simp add: stop_inv)
next
  case (Ev_device_matching result device)
  with assms show ?thesis by (simp add: static_device_matching_callback_def dmc_inv)
next
  case (Ev_device_removal result device)
  with assms show ?thesis by (simp add: static_device_removal_callback_def drc_inv)
next
  case Ev_timer
  with assms show ?thesis by (simp add: refresh_inv)
qed

lemma run_inv:
  assumes "hid_manager_inv s"
  shows "\<exists>s'. run es s = Some s' \<and> hid_manager_inv s'"
  using assms
proof (induction es arbitrary: s)
  case Nil
  then show ?case by simp
next
  case (Cons e es)
  from deliver_inv[OF Cons.prems, of "fst e" "snd e"]
  obtain s1 where s1: "deliver (fst e) (snd e) s = Some s1" "hid_manager_inv s1" by blast
  from Cons.IH[OF s1(2)] s1(1) show ?case by simp
qed

text \<open>
  Every state the manager reaches from its constructor, under any sequence of calls,
  callbacks and timer ticks with any answers of the outside, is defined (no empty shared
  pointer is dereferenced) and satisfies the invariants.
\<close>

lemma reachable_inv:
  "\<exists>s. run es (hid_manager_ctor pairs h es0) = Some s \<and> hid_manager_inv s"
  using ctor_inv by (rule run_inv)

lemma arrivals_known:
  assumes "list_all (accepted_as r) calls" "map_of (hids s) r = Some p"
  shows "hids (arrivals calls s) = hids s \<and> heap (arrivals calls s) = heap s \<and>
         effects (arrivals calls s) = effects s"
  using assms
proof (induction calls arbitrary: s)
  case Nil
  then show ?case by simp
next
  case (Cons c cs)
  obtain env d where c: "c = (env, d)" by (cases c)
  from Cons.prems have acc: "accepted_as r (env, d)" and rest: "list_all (accepted_as r) cs"
    by (simp_all add: c)
  let ?s1 = "device_matching_callback env d s"
  have s1: "?s1 = s\<lparr>registry_entry_ids := AList.update d r (registry_entry_ids s)\<rparr>"
    using acc Cons.prems(2) by (rule dmc_known)
  have "map_of (hids ?s1) r = Some p" using Cons.prems(2) by (simp add: s1)
  from Cons.IH[OF rest this] show ?case by (simp add: c s1)
qed

lemma entries_for_unique:
  "distinct (map fst xs) \<Longrightarrow> map_of xs k = Some v \<Longrightarrow> entries_for k xs = [(k, v)]"
proof (induction xs)
  case Nil
  then show ?case by simp
next
  case (Cons x xs)
  show ?case
  proof (cases "fst x = k")
    case True
    with Cons.prems have "k \<notin> fst ` set xs" by auto
    then have "filter (\<lambda>e. fst e = k) xs = []" by (auto simp: filter_empty_conv)
    with True Cons.prems show ?thesis by (cases x) (simp add: entries_for_def)
  next
    case False
    with Cons show ?thesis by (cases x) (simp add: entries_for_def)
  qed
qed

lemma drc_registry_entry_ids:
  assumes "device \<noteq> nullptr" "find_registry_entry_id s device = Some r"
  shows "registry_entry_ids (device_removal_callback device s) =
           erase_registry_entry_id r (registry_entry_ids s)"
  using assms
  by (simp add: device_removal_callback_def emit_def Let_def split: option.split)

lemma map_of_delete_aux_same:
  "distinct (map fst xs) \<Longrightarrow> map_of (AList.delete_aux k xs) k = None"
  by (simp add: map_of_delete_aux')

subsection \<open>The scenario, evaluated\<close>

lemma scenario_running_eq:
  "scenario_running =
     \<lparr>usage_pairs = [(1, 6)], manager = 7, registry_entry_ids = [], hids = [],
      refresh_timer = Some \<lparr>timer_start = 0, timer_interval = 5000000000, timer_leeway = 0\<rparr>,
      heap = [],
      effects = [Call_IOHIDManagerSetDeviceMatchingMultiple 7 8, Call_CFRelease 8,
                 Call_IOHIDManagerRegisterDeviceMatchingCallback 7,
                 Call_IOHIDManagerRegisterDeviceRemovalCallback 7,
                 Call_IOHIDManagerScheduleWithRunLoop 7]\<rparr>"
  by (simp add: scenario_running_def scenario_stopped_def scenario_env_def hid_manager_ctor_def
      start_def emit_def nullptr_def Let_def)

lemma scenario_two_handles_eq:
  "scenario_two_handles =
     \<lparr>usage_pairs = [(1, 6)], manager = 7, registry_entry_ids = [(1, 100), (2, 100)],
      hids = [(100, Some 0)],
      refresh_timer = Some \<lparr>timer_start = 0, timer_interval = 5000000000, timer_leeway = 0\<rparr>,
      heap = [\<lparr>hid_device = 1, hid_registry_entry_id = 100, hid_removed = False\<rparr>],
      effects = [Call_IOHIDManagerSetDeviceMatchingMultiple 7 8, Call_CFRelease 8,
                 Call_IOHIDManagerRegisterDeviceMatchingCallback 7,
                 Call_IOHIDManagerRegisterDeviceRemovalCallback 7,
                 Call_IOHIDManagerScheduleWithRunLoop 7,
                 Signal_device_detected (Some 0)]\<rparr>"
  by (simp add: scenario_two_handles_def scenario_running_eq scenario_env_def handle_A_def
      handle_B_def device_matching_callback_def make_shared_def emit_def nullptr_def)


section \<open>The claims\<close>

subsection \<open>Arrival handling\<close>

text \<open>
  Claim C1. Take any non-empty sequence of arrival callbacks that are all accepted as the
  same registry entry id \<open>r\<close> (handle not null, not vetoed by the pre-filter, resolved to
  \<open>r\<close>), from any state whose \<open>hids\<close> map has unique keys. If \<open>r\<close> had no logical device, the
  whole sequence raises exactly one \<open>device_detected\<close> signal and allocates exactly one
  device; if it had one, the sequence raises nothing and allocates nothing. Afterwards
  \<open>hids\<close> holds exactly one entry for \<open>r\<close>. A single accepted callback for an identity that
  already has a logical device leaves \<open>hids\<close>, the object store and the effects as they
  were.
\<close>

theorem arrivals_detect_once:
  assumes "calls \<noteq> []" "list_all (accepted_as r) calls" "distinct (map fst (hids s))"
  shows "effects (arrivals calls s) =
           effects s @ (if map_of (hids s) r = None
                        then [Signal_device_detected (Some (length (heap s)))] else [])
       \<and> heap (arrivals calls s) =
           heap s @ (if map_of (hids s) r = None
                     then [\<lparr>hid_device = snd (hd calls), hid_registry_entry_id = r,
                            hid_removed = False\<rparr>]
                     else [])
       \<and> entries_for r (hids (arrivals calls s)) =
           [(r, if map_of (hids s) r = None then Some (length (heap s))
                else the (map_of (hids s) r))]
       \<and> (\<forall>env d. accepted_as r (env, d) \<and> map_of (hids s) r \<noteq> None \<longrightarrow>
            hids (device_matching_callback env d s) = hids s \<and>
            heap (device_matching_callback env d s) = heap s \<and>
            effects (device_matching_callback env d s) = effects s)"
proof (cases "map_of (hids s) r")
  case None
  from assms(1) obtain c cs where calls: "calls = c # cs" by (cases calls) auto
  obtain env d where c: "c = (env, d)" by (cases c)
  from assms(2) have acc: "accepted_as r (env, d)" and rest: "list_all (accepted_as r) cs"
    by (simp_all add: calls c)
  let ?s1 = "device_matching_callback env d s"
  note s1 = dmc_fresh[OF acc None]
  have m1: "map_of (hids ?s1) r = Some (Some (length (heap s)))"
    by (simp add: s1 update_conv')
  have d1: "distinct (map fst (hids ?s1))"
    using assms(3) by (simp add: s1 distinct_update)
  from arrivals_known[OF rest m1]
  have k: "hids (arrivals calls s) = hids ?s1" "heap (arrivals calls s) = heap ?s1"
    "effects (arrivals calls s) = effects ?s1"
    by (simp_all add: calls c)
  have "entries_for r (hids ?s1) = [(r, Some (length (heap s)))]"
    using d1 m1 by (rule entries_for_unique)
  with k None show ?thesis by (simp add: s1 calls c)
next
  case (Some p)
  from arrivals_known[OF assms(2) Some]
  have k: "hids (arrivals calls s) = hids s" "heap (arrivals calls s) = heap s"
    "effects (arrivals calls s) = effects s"
    by simp_all
  have "entries_for r (hids s) = [(r, p)]"
    using assms(3) Some by (rule entries_for_unique)
  moreover have "\<And>env d. accepted_as r (env, d) \<Longrightarrow>
       device_matching_callback env d s =
         s\<lparr>registry_entry_ids := AList.update d r (registry_entry_ids s)\<rparr>"
    using Some by (simp add: dmc_known)
  ultimately show ?thesis using k Some by simp
qed

theorem arrivals_detect_once_witness:
  "list_all (accepted_as 100) [(scenario_env, handle_A), (scenario_env, handle_B)]
   \<and> distinct (map fst (hids scenario_running))
   \<and> raised_since scenario_running
        (arrivals [(scenario_env, handle_A), (scenario_env, handle_B)] scenario_running) =
      [Signal_device_detected (Some 0)]
   \<and> entries_for 100
        (hids (arrivals [(scenario_env, handle_A), (scenario_env, handle_B)] scenario_running)) =
      [(100, Some 0)]"
  using arrivals_detect_once
          [of "[(scenario_env, handle_A), (scenario_env, handle_B)]" 100 scenario_running]
  by (simp add: scenario_running_eq accepted_as_def scenario_env_def handle_A_def handle_B_def
      nullptr_def raised_since_def)

text \<open>
  Claim C7. When a slot of the pre-filter signal \<open>device_detecting\<close> rejects the handle, the
  arrival callback returns with the object, the object store and the effects unchanged:
  no entry in \<open>registry_entry_ids\<close>, no logical device, no signal.
\<close>

theorem veto_changes_nothing:
  assumes "\<not> device_detecting env device"
  shows "device_matching_callback env device s = s"
  using assms by (simp add: device_matching_callback_def)

theorem veto_changes_nothing_witness:
  "\<not> device_detecting (scenario_env\<lparr>device_detecting := (\<lambda>device. device \<noteq> 3)\<rparr>) 3
   \<and> device_matching_callback (scenario_env\<lparr>device_detecting := (\<lambda>device. device \<noteq> 3)\<rparr>) 3
        scenario_two_handles = scenario_two_handles"
  using veto_changes_nothing
          [of "scenario_env\<lparr>device_detecting := (\<lambda>device. device \<noteq> 3)\<rparr>" 3 scenario_two_handles]
  by simp

text \<open>
  Claim C8. Every arrival callback with a non-null handle that is not vetoed and whose
  registry entry id resolves stores (handle, id) in \<open>registry_entry_ids\<close>, whatever \<open>hids\<close>
  holds for that id, so that the lookup \<open>find_registry_entry_id\<close> of a later removal
  callback for this handle returns the same id.
\<close>

theorem arrival_records_handle:
  assumes "device \<noteq> nullptr" "device_detecting env device"
    and "iokit_find_registry_entry_id env device = Some r"
  shows "registry_entry_ids (device_matching_callback env device s) =
           AList.update device r (registry_entry_ids s)
       \<and> find_registry_entry_id (device_matching_callback env device s) device = Some r"
proof -
  have "registry_entry_ids (device_matching_callback env device s) =
           AList.update device r (registry_entry_ids s)"
    using assms
    by (cases "map_of (hids s) r")
       (simp_all add: device_matching_callback_def make_shared_def emit_def)
  then show ?thesis by (simp add: find_registry_entry_id_def update_conv')
qed

theorem arrival_records_handle_witness:
  "handle_B \<noteq> nullptr \<and> device_detecting scenario_env handle_B
   \<and> iokit_find_registry_entry_id scenario_env handle_B = Some 100
   \<and> map_of (hids (device_matching_callback scenario_env handle_A scenario_running)) 100 \<noteq> None
   \<and> find_registry_entry_id
        (device_matching_callback scenario_env handle_B
           (device_matching_callback scenario_env handle_A scenario_running)) handle_B = Some 100"
  using arrival_records_handle
          [of handle_B scenario_env 100
              "device_matching_callback scenario_env handle_A scenario_running"]
  by (simp add: scenario_running_eq scenario_env_def handle_A_def handle_B_def nullptr_def
      device_matching_callback_def make_shared_def emit_def)

subsection \<open>Removal handling\<close>

text \<open>
  Claim C2. After a removal callback for a non-null handle whose registry entry id \<open>r\<close> is
  cached, \<open>registry_entry_ids\<close> is what it was without every entry whose value is \<open>r\<close>: no
  handle is mapped to \<open>r\<close> any more, whatever \<open>hids\<close> held for \<open>r\<close>, and the other entries are
  kept.
\<close>

theorem removal_purges_identity:
  assumes "device \<noteq> nullptr" "find_registry_entry_id s device = Some r"
  shows "registry_entry_ids (device_removal_callback device s) =
           filter (\<lambda>it. snd it \<noteq> r) (registry_entry_ids s)
       \<and> (\<forall>d. find_registry_entry_id (device_removal_callback device s) d \<noteq> Some r)"
proof -
  have eq: "registry_entry_ids (device_removal_callback device s) =
           filter (\<lambda>it. snd it \<noteq> r) (registry_entry_ids s)"
    using drc_registry_entry_ids[OF assms] by (simp add: erase_registry_entry_id_filter)
  have "find_registry_entry_id (device_removal_callback device s) d \<noteq> Some r" for d
  proof
    assume "find_registry_entry_id (device_removal_callback device s) d = Some r"
    then have "(d, r) \<in> set (filter (\<lambda>it. snd it \<noteq> r) (registry_entry_ids s))"
      unfolding find_registry_entry_id_def eq by (rule map_of_SomeD)
    then show False by simp
  qed
  with eq show ?thesis by simp
qed

theorem removal_purges_identity_witness:
  "handle_A \<noteq> nullptr \<and> find_registry_entry_id scenario_two_handles handle_A = Some 100
   \<and> registry_entry_ids scenario_two_handles = [(handle_A, 100), (handle_B, 100)]
   \<and> registry_entry_ids (device_removal_callback handle_A scenario_two_handles) = []
   \<and> registry_entry_ids
        (device_removal_callback handle_A (scenario_two_handles\<lparr>hids := []\<rparr>)) = []"
  using removal_purges_identity [of handle_A scenario_two_handles 100]
    removal_purges_identity [of handle_A "scenario_two_handles\<lparr>hids := []\<rparr>" 100]
  by (simp add: scenario_two_handles_eq handle_A_def handle_B_def nullptr_def
      find_registry_entry_id_def)

text \<open>
  Claim C3. A removal callback is delivered the same way whatever the outside would answer
  at that time: the registry entry id comes from the cached map \<open>registry_entry_ids\<close> alone.
  When the handle is not null, its id \<open>r\<close> is cached and \<open>hids\<close> holds a logical device for
  \<open>r\<close>, the entry is erased from \<open>hids\<close>, the device is marked removed in the object store and
  exactly one \<open>device_removed\<close> signal, for that device, is raised.
\<close>

theorem removal_evicts_device:
  assumes "device \<noteq> nullptr" "find_registry_entry_id s device = Some r"
    and "map_of (hids s) r = Some (Some a)" "hids_inv s"
  shows "deliver env (Ev_device_removal result device) s =
           deliver env' (Ev_device_removal result device) s
       \<and> find_registry_entry_id s device = map_of (registry_entry_ids s) device
       \<and> hids (device_removal_callback device s) = AList.delete_aux r (hids s)
       \<and> map_of (hids (device_removal_callback device s)) r = None
       \<and> heap (device_removal_callback device s) =
           (heap s)[a := (heap s ! a)\<lparr>hid_removed := True\<rparr>]
       \<and> hid_removed (heap (device_removal_callback device s) ! a)
       \<and> effects (device_removal_callback device s) =
           effects s @ [Signal_device_removed (Some a)]"
proof -
  have eq: "device_removal_callback device s =
          s\<lparr>hids := AList.delete_aux r (hids s), heap := set_removed a (heap s),
            effects := effects s @ [Signal_device_removed (Some a)],
            registry_entry_ids := erase_registry_entry_id r (registry_entry_ids s)\<rparr>"
    using assms(1-3) by (simp add: device_removal_callback_def emit_def)
  from hids_inv_nonnull[OF assms(4,3)] have a: "a < length (heap s)" by simp
  from assms(4) have d: "distinct (map fst (hids s))" by (simp add: hids_inv_def)
  show ?thesis
    using a d
    by (simp add: eq find_registry_entry_id_def set_removed_def map_of_delete_aux_same)
qed

theorem removal_evicts_device_witness:
  "handle_A \<noteq> nullptr \<and> find_registry_entry_id scenario_two_handles handle_A = Some 100
   \<and> map_of (hids scenario_two_handles) 100 = Some (Some 0) \<and> hids_inv scenario_two_handles
   \<and> hids (device_removal_callback handle_A scenario_two_handles) = []
   \<and> heap (device_removal_callback handle_A scenario_two_handles) =
       [\<lparr>hid_device = 1, hid_registry_entry_id = 100, hid_removed = True\<rparr>]
   \<and> raised_since scenario_two_handles (device_removal_callback handle_A scenario_two_handles) =
       [Signal_device_removed (Some 0)]"
  using removal_evicts_device [of handle_A scenario_two_handles 100 0]
  by (simp add: scenario_two_handles_eq handle_A_def nullptr_def find_registry_entry_id_def
      hids_inv_def points_into_def raised_since_def)

text \<open>
  Claim C10. A removal callback for a handle that has no entry in \<open>registry_entry_ids\<close>
  (never arrived, vetoed, unresolved, or purged before) returns with the object, the
  object store and the effects unchanged.
\<close>

theorem removal_unknown_noop:
  assumes "find_registry_entry_id s device = None"
  shows "device_removal_callback device s = s"
  using assms by (simp add: device_removal_callback_def)

theorem removal_unknown_noop_witness:
  "find_registry_entry_id scenario_two_handles 3 = None
   \<and> device_removal_callback 3 scenario_two_handles = scenario_two_handles"
  using removal_unknown_noop [of scenario_two_handles 3]
  by (simp add: scenario_two_handles_eq find_registry_entry_id_def)

subsection \<open>Session lifecycle\<close>

text \<open>
  Claim C5. On a running manager (\<open>manager\<close> not null) \<open>start\<close> gives the same state, effects
  included, as \<open>stop\<close> followed by \<open>start\<close>: the first two effects are the unscheduling and
  the release of the old session, and both maps are empty when \<open>start\<close> returns.
\<close>

theorem restart_is_stop_then_start:
  assumes "manager s \<noteq> nullptr"
  shows "start env s = stop_then_start env s
       \<and> registry_entry_ids (start env s) = [] \<and> hids (start env s) = []
       \<and> take 2 (raised_since s (start env s)) =
           [Call_IOHIDManagerUnscheduleFromRunLoop (manager s), Call_CFRelease (manager s)]"
  using assms
  by (simp add: start_def stop_then_start_def stop_fields Let_def emit_def raised_since_def)

theorem restart_is_stop_then_start_witness:
  "manager scenario_two_handles \<noteq> nullptr
   \<and> hids scenario_two_handles \<noteq> []
   \<and> start scenario_env scenario_two_handles = stop_then_start scenario_env scenario_two_handles
   \<and> hids (start scenario_env scenario_two_handles) = []
   \<and> registry_entry_ids (start scenario_env scenario_two_handles) = []"
  using restart_is_stop_then_start [of scenario_two_handles scenario_env]
  by (simp add: scenario_two_handles_eq scenario_env_def nullptr_def stop_then_start_def
      start_def stop_def emit_def Let_def)

text \<open>
  Claim C6. \<open>stop\<close> is idempotent: a second \<open>stop\<close> changes nothing. The only effects of
  \<open>stop\<close> are the unscheduling and release of an open session; neither the first nor the
  second call raises a \<open>device_removed\<close> signal, and the object store is left as it is.
\<close>

theorem stop_idempotent:
  "stop (stop s) = stop s
   \<and> raised_since s (stop s) =
       (if manager s \<noteq> nullptr
        then [Call_IOHIDManagerUnscheduleFromRunLoop (manager s), Call_CFRelease (manager s)]
        else [])
   \<and> filter is_device_removed (raised_since s (stop s)) = []
   \<and> filter is_device_removed (raised_since s (stop (stop s))) = []
   \<and> heap (stop s) = heap s"
proof -
  have twice: "stop (stop s) = stop s"
    by (simp add: stop_def emit_def Let_def)
  have once: "raised_since s (stop s) =
       (if manager s \<noteq> nullptr
        then [Call_IOHIDManagerUnscheduleFromRunLoop (manager s), Call_CFRelease (manager s)]
        else [])"
    by (simp add: raised_since_def stop_fields)
  have quiet: "filter is_device_removed (raised_since s (stop s)) = []"
    by (simp add: once)
  have again: "filter is_device_removed (raised_since s (stop (stop s))) = []"
    by (simp only: twice quiet)
  have store: "heap (stop s) = heap s" by (simp add: stop_fields)
  from twice once quiet again store show ?thesis by blast
qed

theorem stop_idempotent_witness:
  "hids scenario_two_handles \<noteq> []
   \<and> stop (stop scenario_two_handles) = stop scenario_two_handles
   \<and> raised_since scenario_two_handles (stop (stop scenario_two_handles)) =
       [Call_IOHIDManagerUnscheduleFromRunLoop 7, Call_CFRelease 7]"
  using stop_idempotent [of scenario_two_handles]
  by (simp add: scenario_two_handles_eq nullptr_def stop_def emit_def raised_since_def)

text \<open>
  Claim C9. When \<open>IOHIDManagerCreate\<close> returns null, \<open>start\<close> logs one error and returns: the
  manager is stopped (\<open>manager\<close> null, no refresh timer), and beyond the teardown of a
  session that was open before, its only effect is the log line, so no callback is
  registered and nothing is scheduled. A later \<open>start\<close> for which the creation succeeds
  opens a session with its timer. The state before is one in which a timer exists only
  while a session is open, as in every reachable state.
\<close>

theorem start_failure_stays_stopped:
  assumes "IOHIDManagerCreate env = nullptr" "timer_inv s"
  shows "manager (start env s) = nullptr \<and> refresh_timer (start env s) = None
       \<and> raised_since s (start env s) =
           (if manager s \<noteq> nullptr
            then [Call_IOHIDManagerUnscheduleFromRunLoop (manager s), Call_CFRelease (manager s)]
            else []) @
           [Log_error (pretty_function_start @ '': failed to IOHIDManagerCreate'')]
       \<and> filter is_registration (raised_since s (start env s)) = []
       \<and> (IOHIDManagerCreate env' \<noteq> nullptr \<longrightarrow>
            manager (start env' (start env s)) = IOHIDManagerCreate env' \<and>
            refresh_timer (start env' (start env s)) \<noteq> None \<and>
            filter is_registration (raised_since (start env s) (start env' (start env s))) =
              [Call_IOHIDManagerRegisterDeviceMatchingCallback (IOHIDManagerCreate env'),
               Call_IOHIDManagerRegisterDeviceRemovalCallback (IOHIDManagerCreate env'),
               Call_IOHIDManagerScheduleWithRunLoop (IOHIDManagerCreate env')])"
proof -
  let ?s0 = "if manager s \<noteq> nullptr then stop s else s"
  note st = start_failed[OF assms(1), of s]
  have m: "manager (start env s) = nullptr" by (simp add: st emit_fields)
  have t: "refresh_timer (start env s) = None"
    using assms(2) by (auto simp: st emit_fields stop_fields timer_inv_def)
  have e: "raised_since s (start env s) =
           (if manager s \<noteq> nullptr
            then [Call_IOHIDManagerUnscheduleFromRunLoop (manager s), Call_CFRelease (manager s)]
            else []) @
           [Log_error (pretty_function_start @ '': failed to IOHIDManagerCreate'')]"
    by (simp add: st emit_fields stop_fields raised_since_def)
  have r: "filter is_registration (raised_since s (start env s)) = []"
    by (simp add: e)
  have retry: "manager (start env' (start env s)) = IOHIDManagerCreate env' \<and>
            refresh_timer (start env' (start env s)) \<noteq> None \<and>
            filter is_registration (raised_since (start env s) (start env' (start env s))) =
              [Call_IOHIDManagerRegisterDeviceMatchingCallback (IOHIDManagerCreate env'),
               Call_IOHIDManagerRegisterDeviceRemovalCallback (IOHIDManagerCreate env'),
               Call_IOHIDManagerScheduleWithRunLoop (IOHIDManagerCreate env')]"
    if ok: "IOHIDManagerCreate env' \<noteq> nullptr"
    using m by (simp add: start_opened[OF ok] raised_since_def)
  from m t e r retry show ?thesis by blast
qed

theorem start_failure_stays_stopped_witness:
  "IOHIDManagerCreate (scenario_env\<lparr>IOHIDManagerCreate := 0\<rparr>) = nullptr
   \<and> timer_inv scenario_two_handles
   \<and> manager (start (scenario_env\<lparr>IOHIDManagerCreate := 0\<rparr>) scenario_two_handles) = nullptr
   \<and> refresh_timer (start (scenario_env\<lparr>IOHIDManagerCreate := 0\<rparr>) scenario_two_handles) = None
   \<and> manager (start scenario_env
        (start (scenario_env\<lparr>IOHIDManagerCreate := 0\<rparr>) scenario_two_handles)) = 7"
  using start_failure_stays_stopped
          [of "scenario_env\<lparr>IOHIDManagerCreate := 0\<rparr>" scenario_two_handles scenario_env]
  by (simp add: scenario_two_handles_eq scenario_env_def nullptr_def timer_inv_def)

subsection \<open>Reconciliation\<close>



end
